theory Spec2Isabelle
  imports Main
begin

section \<open>Data model (helper/helper.go)\<close>

text \<open>
  The two configuration structs of \<^verbatim>\<open>helper.go\<close>. A Go string is a byte sequence, as
  an Isabelle \<open>string\<close> is.
\<close>

record Config =
  Hostname :: string
  Username :: string
  Password :: string

record Configs =
  IPAddress :: string
  Configs :: "Config list"

text \<open>The constants of \<^verbatim>\<open>helper.go\<close>.\<close>

definition ipCacheFilename :: string where
  "ipCacheFilename = ''ip.cache''"

definition checkIPURL :: string where
  "checkIPURL = ''https://domains.google.com/checkip''"

definition fallbackIP :: string where
  "fallbackIP = ''0.0.0.0''"

text \<open>
  \<^verbatim>\<open>fmt.Sprintf(apiURLFormat, conf.Username, conf.Password, conf.Hostname, ip)\<close> with
  \<^verbatim>\<open>apiURLFormat = "https://%s:%s@domains.google.com/nic/update?hostname=%s&myip=%s"\<close>.
\<close>

definition apiURL :: "Config \<Rightarrow> string \<Rightarrow> string" where
  "apiURL conf ip =
     ''https://'' @ Username conf @ '':'' @ Password conf
       @ ''@domains.google.com/nic/update?hostname='' @ Hostname conf @ ''&myip='' @ ip"

text \<open>
  Every \<^verbatim>\<open>error\<close> value the program builds or receives. The constructors carry the
  arguments that \<^verbatim>\<open>fmt.Errorf\<close> formats into the message; \<open>ErrBadAgent\<close> stands for
  the message built from \<^verbatim>\<open>userAgent()\<close>, which depends on the platform only.
\<close>

datatype error =
    ErrNotExist string
  | ErrReadFile string
  | ErrWriteFile string
  | ErrNewRequest string
  | ErrDo
  | ErrReadAll
  | ErrFetchExternalIP nat
  | ErrReadExternalIP
  | ErrMismatch string string
  | ErrNoHost string
  | ErrBadAuth string string string
  | ErrNotFQDN string
  | ErrBadAgent
  | ErrAbuse string
  | Err911
  | ErrUnhandled string

text \<open>One constructor for each \<^verbatim>\<open>log.Printf\<close> of the program, with its arguments.\<close>

datatype log_event =
    LogCacheMissing string
  | LogLoadedCache string string
  | LogCaching string string
  | LogUpdateSuccessful
  | LogAlreadySetAtProvider string string
  | LogFetchedExternalIP string
  | LogProcessing string
  | LogNoSuchHostname string
  | LogFailedUpdate string string error
  | LogCachedAlreadySet string string
  | LogExitWithError error
  | LogUpdateFinished

section \<open>The environment: files, network, log\<close>

text \<open>
  The state the program acts on. \<open>files\<close> maps a path to the content of the file there
  (\<open>None\<close>: no such file). \<open>read_ok\<close> and \<open>write_ok\<close> say whether
  \<^verbatim>\<open>os.ReadFile\<close> of an existing file and \<^verbatim>\<open>os.WriteFile\<close> succeed at a path
  (permissions, a missing directory); the program never changes them. \<open>sent\<close> lists the
  URLs of the update requests handed to the HTTP client, oldest first, and \<open>logged\<close> the
  log lines.
\<close>

record world =
  files :: "string \<rightharpoonup> string"
  read_ok :: "string \<Rightarrow> bool"
  write_ok :: "string \<Rightarrow> bool"
  sent :: "string list"
  logged :: "log_event list"

text \<open>
  What \<^verbatim>\<open>httpClient.Do\<close> followed by \<^verbatim>\<open>io.ReadAll(resp.Body)\<close> can give:
  \<open>DoError r\<close> is a non-nil error, with \<open>r\<close> the status code of the response when the
  response is non-nil as well (Go documents this for a failed redirect only; otherwise
  the response is nil); \<open>DoOk code body\<close> is a response with its status code, and its
  body when it can be read.
\<close>

datatype http_reply =
    DoError "nat option"
  | DoOk nat "string option"

text \<open>
  The network, as the answers it gives: whether \<^verbatim>\<open>http.NewRequest\<close> accepts a URL,
  the reply to the probe, and the reply to an update request given every update URL
  sent so far (the current one last).
\<close>

record network =
  url_ok :: "string \<Rightarrow> bool"
  probe :: http_reply
  provider :: "string list \<Rightarrow> http_reply"

text \<open>A call either panics (a nil dereference) or returns.\<close>

datatype 'a go = Panic | Ret 'a

definition logPrintf :: "log_event \<Rightarrow> world \<Rightarrow> world" where
  "logPrintf e w = w\<lparr>logged := logged w @ [e]\<rparr>"

section \<open>Library functions the program calls\<close>

text \<open>
  \<^verbatim>\<open>strings.Split(s, sep)\<close> for a separator of one byte: \<open>n\<close> separators give
  \<open>n + 1\<close> components, empty ones kept; the empty string gives one empty component.
\<close>

fun strings_Split :: "string \<Rightarrow> char \<Rightarrow> string list" where
  "strings_Split [] sep = [[]]"
| "strings_Split (c # cs) sep =
     (if c = sep then [] # strings_Split cs sep
      else (case strings_Split cs sep of
              [] \<Rightarrow> [[c]]
            | t # ts \<Rightarrow> (c # t) # ts))"

text \<open>\<^verbatim>\<open>strings.Join(elems, "/")\<close>.\<close>

fun strings_Join :: "string list \<Rightarrow> string" where
  "strings_Join [] = []"
| "strings_Join [x] = x"
| "strings_Join (x # y # ys) = x @ ''/'' @ strings_Join (y # ys)"

text \<open>
  \<^verbatim>\<open>filepath.Clean\<close> on Unix, where the separator is the slash. \<open>clean_push\<close> is one
  round of its loop over the components of the path, on the components kept so far
  (last one first): empty and \<open>.\<close> components are dropped, \<open>..\<close> removes the component
  before it, is dropped at the root, and is kept at the start of a relative path.
\<close>

definition clean_push :: "bool \<Rightarrow> string list \<Rightarrow> string \<Rightarrow> string list" where
  "clean_push rooted out c =
     (if c = [] \<or> c = ''.'' then out
      else if c = ''..'' then
        (case out of
           [] \<Rightarrow> (if rooted then [] else [''..''])
         | t # ts \<Rightarrow> (if t = ''..'' then ''..'' # out else ts))
      else c # out)"

definition filepath_Clean :: "string \<Rightarrow> string" where
  "filepath_Clean path =
     (if path = [] then ''.''
      else
        (let rooted = (hd path = CHR ''/'');
             out = rev (foldl (clean_push rooted) [] (strings_Split path CHR ''/''))
         in if rooted then ''/'' @ strings_Join out
            else if out = [] then ''.''
            else strings_Join out))"

text \<open>\<^verbatim>\<open>filepath.Join(a, b)\<close>: empty elements are skipped, the rest joined and cleaned.\<close>

definition filepath_Join :: "string \<Rightarrow> string \<Rightarrow> string" where
  "filepath_Join a b =
     (if a \<noteq> [] then filepath_Clean (a @ ''/'' @ b)
      else if b \<noteq> [] then filepath_Clean b
      else [])"

text \<open>
  \<^verbatim>\<open>os.Stat\<close>, \<^verbatim>\<open>os.ReadFile\<close> and \<^verbatim>\<open>os.WriteFile\<close> on the files of the world.
  A write that fails leaves the files as they are.
\<close>

definition os_Stat :: "string \<Rightarrow> world \<Rightarrow> error option" where
  "os_Stat path w = (case files w path of None \<Rightarrow> Some (ErrNotExist path) | Some _ \<Rightarrow> None)"

fun os_IsNotExist :: "error \<Rightarrow> bool" where
  "os_IsNotExist (ErrNotExist _) = True"
| "os_IsNotExist _ = False"

definition os_ReadFile :: "string \<Rightarrow> world \<Rightarrow> string \<times> error option" where
  "os_ReadFile path w =
     (case files w path of
        None \<Rightarrow> ([], Some (ErrNotExist path))
      | Some data \<Rightarrow> (if read_ok w path then (data, None) else ([], Some (ErrReadFile path))))"

definition os_WriteFile :: "string \<Rightarrow> string \<Rightarrow> world \<Rightarrow> error option \<times> world" where
  "os_WriteFile path data w =
     (if write_ok w path then (None, w\<lparr>files := (files w)(path \<mapsto> data)\<rparr>)
      else (Some (ErrWriteFile path), w))"

section \<open>The cache store (helper/helper.go)\<close>

definition ipCacheFilepath :: "string \<Rightarrow> string \<Rightarrow> string" where
  "ipCacheFilepath cacheDir hostname =
     filepath_Join cacheDir (ipCacheFilename @ ''.'' @ hostname)"

definition cacheIP :: "Config \<Rightarrow> string \<Rightarrow> string \<Rightarrow> world \<Rightarrow> error option \<times> world" where
  "cacheIP conf cacheDir ip w =
     (let filepath = ipCacheFilepath cacheDir (Hostname conf);
          w1 = logPrintf (LogCaching ip filepath) w
      in os_WriteFile filepath ip w1)"

definition LoadCachedIP :: "Config \<Rightarrow> string \<Rightarrow> world \<Rightarrow> (string \<times> error option) \<times> world" where
  "LoadCachedIP conf cacheDir w =
     (let filepath = ipCacheFilepath cacheDir (Hostname conf) in
      if (case os_Stat filepath w of None \<Rightarrow> False | Some err \<Rightarrow> os_IsNotExist err) then
        (let w1 = logPrintf (LogCacheMissing filepath) w;
             w2 = snd (cacheIP conf cacheDir fallbackIP w1)
         in ((fallbackIP, None), w2))
      else
        (case os_ReadFile filepath w of
           (data, None) \<Rightarrow> ((data, None), logPrintf (LogLoadedCache data filepath) w)
         | (data, Some err) \<Rightarrow> ((data, Some err), w)))"

section \<open>The provider update client (helper/helper.go)\<close>

definition checkResponse ::
  "Config \<Rightarrow> string \<Rightarrow> string \<Rightarrow> string \<Rightarrow> world \<Rightarrow> error option \<times> world" where
  "checkResponse conf cacheDir response ip w =
     (let comps = strings_Split response CHR '' '' in
      if length comps \<ge> 2 then
        (let (err, w1) =
               (if ip = comps ! 1 then (None, snd (cacheIP conf cacheDir ip w))
                else (Some (ErrMismatch (comps ! 1) ip), w));
             w2 = (if comps ! 0 = ''good'' then logPrintf LogUpdateSuccessful w1
                   else if comps ! 0 = ''nochg''
                     then logPrintf (LogAlreadySetAtProvider ip (Hostname conf)) w1
                   else w1)
         in (err, w2))
      else
        (if response = ''nohost'' then Some (ErrNoHost (Hostname conf))
         else if response = ''badauth''
           then Some (ErrBadAuth (Username conf) (Password conf) (Hostname conf))
         else if response = ''notfqdn'' then Some (ErrNotFQDN (Hostname conf))
         else if response = ''badagent'' then Some ErrBadAgent
         else if response = ''abuse'' then Some (ErrAbuse (Hostname conf))
         else if response = ''911'' then Some Err911
         else Some (ErrUnhandled response),
         w))"

definition UpdateIP ::
  "Config \<Rightarrow> string \<Rightarrow> string \<Rightarrow> network \<Rightarrow> world \<Rightarrow> error option \<times> world" where
  "UpdateIP conf cacheDir ip net w =
     (let url = apiURL conf ip in
      if url_ok net url then
        (let w1 = w\<lparr>sent := sent w @ [url]\<rparr> in
         case provider net (sent w1) of
           DoError _ \<Rightarrow> (Some ErrDo, w1)
         | DoOk code None \<Rightarrow> (Some ErrReadAll, w1)
         | DoOk code (Some bytes) \<Rightarrow> checkResponse conf cacheDir bytes ip w1)
      else (Some (ErrNewRequest url), w))"

section \<open>The external IP probe (helper/helper.go)\<close>

text \<open>
  \<^verbatim>\<open>strings.TrimSpace\<close>, for the white space of ASCII (tab, line feed, vertical tab,
  form feed, carriage return, space). Go also trims the Unicode spaces beyond ASCII,
  which are several bytes each; no statement below depends on them.
\<close>

definition isSpace :: "char \<Rightarrow> bool" where
  "isSpace c = (c = CHR 0x09 \<or> c = CHR 0x0A \<or> c = CHR 0x0B \<or> c = CHR 0x0C
                 \<or> c = CHR 0x0D \<or> c = CHR 0x20)"

definition strings_TrimSpace :: "string \<Rightarrow> string" where
  "strings_TrimSpace s = rev (dropWhile isSpace (rev (dropWhile isSpace s)))"

text \<open>
  \<^verbatim>\<open>GetExternalIP\<close>. When \<^verbatim>\<open>httpClient.Do\<close> fails with a nil response, the
  \<^verbatim>\<open>else\<close> branch reads \<^verbatim>\<open>resp.StatusCode\<close> of the nil response and panics. Every
  other failure returns \<^verbatim>\<open>fallbackIP\<close> together with the error.
\<close>

definition GetExternalIP :: "network \<Rightarrow> (string \<times> error option) go" where
  "GetExternalIP net =
     (if url_ok net checkIPURL then
        (case probe net of
           DoError None \<Rightarrow> Panic
         | DoError (Some code) \<Rightarrow> Ret (fallbackIP, Some (ErrFetchExternalIP code))
         | DoOk code body \<Rightarrow>
             (if code = 200 then
                (case body of
                   Some b \<Rightarrow> Ret (strings_TrimSpace b, None)
                 | None \<Rightarrow> Ret (fallbackIP, Some ErrReadExternalIP))
              else Ret (fallbackIP, Some (ErrFetchExternalIP code))))
      else Ret (fallbackIP, Some (ErrNewRequest checkIPURL)))"

section \<open>The reconciler (main.go)\<close>

definition ConfigForHostname :: "Configs \<Rightarrow> string \<Rightarrow> Config option" where
  "ConfigForHostname confs hostname =
     find (\<lambda>conf. Hostname conf = hostname) (Configs confs)"

text \<open>
  The body of the loop over the hostnames in \<^verbatim>\<open>main\<close> (lines 101 to 123), on the
  variable \<^verbatim>\<open>err\<close> of \<^verbatim>\<open>main\<close> and the world. \<^verbatim>\<open>LoadCachedIP\<close> assigns \<^verbatim>\<open>err\<close>
  whatever it returns, nil included.
\<close>

definition main_step ::
  "string \<Rightarrow> Configs \<Rightarrow> string \<Rightarrow> network \<Rightarrow> string
     \<Rightarrow> error option \<times> world \<Rightarrow> error option \<times> world" where
  "main_step ipAddr confs cacheDir net hostname s =
     (let (err, w) = s;
          w1 = logPrintf (LogProcessing hostname) w
      in case ConfigForHostname confs hostname of
           None \<Rightarrow> (err, logPrintf (LogNoSuchHostname hostname) w1)
         | Some conf \<Rightarrow>
             (case LoadCachedIP conf cacheDir w1 of
                ((savedIP, Some loadErr), w2) \<Rightarrow> (Some loadErr, w2)
              | ((savedIP, None), w2) \<Rightarrow>
                  (if ipAddr \<noteq> savedIP then
                     (case UpdateIP conf cacheDir ipAddr net w2 of
                        (Some updateErr, w3) \<Rightarrow>
                          (Some updateErr,
                           logPrintf (LogFailedUpdate ipAddr (Hostname conf) updateErr) w3)
                      | (None, w3) \<Rightarrow> (None, w3))
                   else (None, logPrintf (LogCachedAlreadySet savedIP (Hostname conf)) w2))))"

fun main_loop ::
  "string \<Rightarrow> Configs \<Rightarrow> string \<Rightarrow> network \<Rightarrow> string list
     \<Rightarrow> error option \<times> world \<Rightarrow> error option \<times> world" where
  "main_loop ipAddr confs cacheDir net [] s = s"
| "main_loop ipAddr confs cacheDir net (hostname # hostnames) s =
     main_loop ipAddr confs cacheDir net hostnames
       (main_step ipAddr confs cacheDir net hostname s)"

text \<open>
  \<^verbatim>\<open>main\<close> from line 77 on, after the arguments are parsed and the configuration is
  read: \<open>ipArg\<close> is the value of \<^verbatim>\<open>-i\<close> (empty when absent), \<open>hostnamesArg\<close> the
  hostnames of the command line, \<open>cacheDir\<close> the directory of the configuration file.
  The result is the exit status and the final world.
\<close>

definition main_ipAddr ::
  "string \<Rightarrow> Configs \<Rightarrow> network \<Rightarrow> world \<Rightarrow> (string \<times> error option \<times> world) go" where
  "main_ipAddr ipArg confs net w =
     (let ipAddr = (if ipArg = [] then IPAddress confs else ipArg) in
      if ipAddr = [] then
        (case GetExternalIP net of
           Panic \<Rightarrow> Panic
         | Ret (ip, None) \<Rightarrow> Ret (ip, None, logPrintf (LogFetchedExternalIP ip) w)
         | Ret (ip, Some err) \<Rightarrow> Ret (ip, Some err, w))
      else Ret (ipAddr, None, w))"

definition main ::
  "string \<Rightarrow> string list \<Rightarrow> Configs \<Rightarrow> string \<Rightarrow> network \<Rightarrow> world \<Rightarrow> (nat \<times> world) go" where
  "main ipArg hostnamesArg confs cacheDir net w =
     (let hostnames =
            (if length hostnamesArg \<le> 0 then hostnamesArg @ map Hostname (Configs confs)
             else hostnamesArg)
      in case main_ipAddr ipArg confs net w of
           Panic \<Rightarrow> Panic
         | Ret (ipAddr, err, w1) \<Rightarrow>
             (let (err2, w2) =
                    (if ipAddr \<noteq> [] then main_loop ipAddr confs cacheDir net hostnames (err, w1)
                     else (err, w1))
              in case err2 of
                   Some e \<Rightarrow> Ret (1, logPrintf (LogExitWithError e) w2)
                 | None \<Rightarrow> Ret (0, logPrintf LogUpdateFinished w2)))"

section \<open>Conditions read off the code\<close>

text \<open>
  The guard under which \<^verbatim>\<open>checkResponse\<close> calls \<^verbatim>\<open>cacheIP\<close> and returns no error
  (lines 212 and 214): the response has at least two components and the second one is
  the requested IP.
\<close>

definition accepted :: "string \<Rightarrow> string \<Rightarrow> bool" where
  "accepted response ip =
     (let comps = strings_Split response CHR '' '' in length comps \<ge> 2 \<and> ip = comps ! 1)"

text \<open>
  The path of \<^verbatim>\<open>UpdateIP\<close> that reaches this guard and passes it: the request is
  built, the client returns a response, its body is read and \<open>accepted\<close>.
\<close>

definition confirmed_by :: "network \<Rightarrow> Config \<Rightarrow> string \<Rightarrow> world \<Rightarrow> bool" where
  "confirmed_by net conf ip w =
     (url_ok net (apiURL conf ip) \<and>
      (case provider net (sent w @ [apiURL conf ip]) of
         DoOk code (Some body) \<Rightarrow> accepted body ip
       | _ \<Rightarrow> False))"

text \<open>
  The condition under which the loop body of \<^verbatim>\<open>main\<close> calls \<^verbatim>\<open>UpdateIP\<close> for a
  configuration (lines 112 and 113): the load returns no error and a saved IP other
  than the resolved one.
\<close>

definition needs_update :: "string \<Rightarrow> string \<Rightarrow> Config \<Rightarrow> world \<Rightarrow> bool" where
  "needs_update ipAddr cacheDir conf w =
     (case fst (LoadCachedIP conf cacheDir w) of
        (savedIP, None) \<Rightarrow> ipAddr \<noteq> savedIP
      | (savedIP, Some loadErr) \<Rightarrow> False)"

section \<open>Concrete inputs\<close>

text \<open>
  The values the closed statements below are evaluated at: two hostname records and
  the configuration holding both (with no static IP), a world with the given files
  where every read succeeds and every write succeeds or every write fails, and a
  network that accepts every URL.
\<close>

definition conf_a :: Config where
  "conf_a = \<lparr>Hostname = ''a.example.com'', Username = ''u'', Password = ''p''\<rparr>"

definition conf_b :: Config where
  "conf_b = \<lparr>Hostname = ''b.example.com'', Username = ''v'', Password = ''q''\<rparr>"

definition disk :: "(string \<times> string) list \<Rightarrow> bool \<Rightarrow> world" where
  "disk fs writable =
     \<lparr>files = map_of fs, read_ok = (\<lambda>_. True), write_ok = (\<lambda>_. writable),
      sent = [], logged = []\<rparr>"

definition answers :: "http_reply \<Rightarrow> (string list \<Rightarrow> http_reply) \<Rightarrow> network" where
  "answers p u = \<lparr>url_ok = (\<lambda>_. True), probe = p, provider = u\<rparr>"

definition confs_ab :: Configs where
  "confs_ab = \<lparr>IPAddress = [], Configs = [conf_a, conf_b]\<rparr>"

section \<open>Facts about the library functions and the cache store\<close>

lemma strings_Split_not_Nil: "strings_Split s sep \<noteq> []"
  by (induction s) (auto split: list.splits)

lemma strings_Split_no_sep: "sep \<notin> set s \<Longrightarrow> strings_Split s sep = [s]"
  by (induction s) auto

lemma strings_Split_first:
  "sep \<notin> set a \<Longrightarrow> strings_Split (a @ sep # b) sep = a # strings_Split b sep"
  by (induction a) auto

lemma strings_Split_last:
  "sep \<notin> set b \<Longrightarrow> strings_Split (a @ sep # b) sep = strings_Split a sep @ [b]"
  by (induction a) (auto simp: strings_Split_no_sep strings_Split_not_Nil split: list.splits)

lemma strings_Split_two:
  "sep \<notin> set a \<Longrightarrow> sep \<notin> set b \<Longrightarrow> strings_Split (a @ sep # b) sep = [a, b]"
  by (simp add: strings_Split_first strings_Split_no_sep)

lemma sent_logPrintf [simp]: "sent (logPrintf e w) = sent w"
  and files_logPrintf [simp]: "files (logPrintf e w) = files w"
  and read_ok_logPrintf [simp]: "read_ok (logPrintf e w) = read_ok w"
  and write_ok_logPrintf [simp]: "write_ok (logPrintf e w) = write_ok w"
  by (simp_all add: logPrintf_def)

lemma cacheIP_files:
  "files (snd (cacheIP conf dir ip w)) =
     (if write_ok w (ipCacheFilepath dir (Hostname conf))
      then (files w)(ipCacheFilepath dir (Hostname conf) \<mapsto> ip) else files w)"
  by (simp add: cacheIP_def os_WriteFile_def Let_def)

lemma cacheIP_frame:
  "sent (snd (cacheIP conf dir ip w)) = sent w"
  "read_ok (snd (cacheIP conf dir ip w)) = read_ok w"
  "write_ok (snd (cacheIP conf dir ip w)) = write_ok w"
  by (simp_all add: cacheIP_def os_WriteFile_def Let_def)

lemma path_a:
  "ipCacheFilepath ''/etc/ddns'' ''a.example.com'' = ''/etc/ddns/ip.cache.a.example.com''"
  by (simp add: ipCacheFilepath_def filepath_Join_def filepath_Clean_def clean_push_def
      ipCacheFilename_def)

lemma path_b:
  "ipCacheFilepath ''/etc/ddns'' ''b.example.com'' = ''/etc/ddns/ip.cache.b.example.com''"
  by (simp add: ipCacheFilepath_def filepath_Join_def filepath_Clean_def clean_push_def
      ipCacheFilename_def)

text \<open>What \<open>checkResponse\<close> does with a response of two tokens.\<close>

lemma checkResponse_two:
  assumes "CHR '' '' \<notin> set status" and "CHR '' '' \<notin> set returned"
  shows "checkResponse conf dir (status @ CHR '' '' # returned) ip w =
     (let (err, w1) = (if ip = returned then (None, snd (cacheIP conf dir ip w))
                else (Some (ErrMismatch returned ip), w))
      in (err, if status = ''good'' then logPrintf LogUpdateSuccessful w1
                   else if status = ''nochg''
                     then logPrintf (LogAlreadySetAtProvider ip (Hostname conf)) w1
                   else w1))"
  using assms by (simp add: checkResponse_def strings_Split_two Let_def)

lemma checkResponse_fst: "fst (checkResponse conf dir r ip w) = None \<longleftrightarrow> accepted r ip"
  by (simp add: checkResponse_def accepted_def Let_def split: prod.splits)

lemma checkResponse_files:
  "files (snd (checkResponse conf dir r ip w)) =
     (if accepted r ip then files (snd (cacheIP conf dir ip w)) else files w)"
  by (simp add: checkResponse_def accepted_def Let_def split: prod.splits)

lemma checkResponse_frame:
  "sent (snd (checkResponse conf dir r ip w)) = sent w"
  "read_ok (snd (checkResponse conf dir r ip w)) = read_ok w"
  "write_ok (snd (checkResponse conf dir r ip w)) = write_ok w"
  by (simp_all add: checkResponse_def Let_def cacheIP_frame split: prod.splits)

text \<open>The two cases of \<open>LoadCachedIP\<close>: no file, and a file.\<close>

lemma LoadCachedIP_absent:
  "files w (ipCacheFilepath dir (Hostname conf)) = None \<Longrightarrow>
   LoadCachedIP conf dir w =
     ((fallbackIP, None),
      snd (cacheIP conf dir fallbackIP
             (logPrintf (LogCacheMissing (ipCacheFilepath dir (Hostname conf))) w)))"
  by (simp add: LoadCachedIP_def os_Stat_def Let_def)

lemma LoadCachedIP_present:
  "files w (ipCacheFilepath dir (Hostname conf)) = Some d \<Longrightarrow>
   LoadCachedIP conf dir w =
     (if read_ok w (ipCacheFilepath dir (Hostname conf))
      then ((d, None), logPrintf (LogLoadedCache d (ipCacheFilepath dir (Hostname conf))) w)
      else (([], Some (ErrReadFile (ipCacheFilepath dir (Hostname conf)))), w))"
  by (simp add: LoadCachedIP_def os_Stat_def os_ReadFile_def Let_def)

lemma LoadCachedIP_fst:
  "fst (LoadCachedIP conf dir w) =
     (case files w (ipCacheFilepath dir (Hostname conf)) of
        None \<Rightarrow> (fallbackIP, None)
      | Some d \<Rightarrow>
          (if read_ok w (ipCacheFilepath dir (Hostname conf)) then (d, None)
           else ([], Some (ErrReadFile (ipCacheFilepath dir (Hostname conf))))))"
  by (cases "files w (ipCacheFilepath dir (Hostname conf))";
      simp add: LoadCachedIP_absent LoadCachedIP_present)

lemma LoadCachedIP_frame:
  "sent (snd (LoadCachedIP conf dir w)) = sent w"
  "read_ok (snd (LoadCachedIP conf dir w)) = read_ok w"
  "write_ok (snd (LoadCachedIP conf dir w)) = write_ok w"
  by (cases "files w (ipCacheFilepath dir (Hostname conf))";
      simp add: LoadCachedIP_absent LoadCachedIP_present cacheIP_frame)+

lemma LoadCachedIP_files:
  "files (snd (LoadCachedIP conf dir w)) =
     (if files w (ipCacheFilepath dir (Hostname conf)) = None
         \<and> write_ok w (ipCacheFilepath dir (Hostname conf))
      then (files w)(ipCacheFilepath dir (Hostname conf) \<mapsto> fallbackIP) else files w)"
  by (cases "files w (ipCacheFilepath dir (Hostname conf))";
      simp add: LoadCachedIP_absent LoadCachedIP_present cacheIP_files)

text \<open>The outcome and the effect of \<open>UpdateIP\<close>.\<close>

lemma UpdateIP_fst: "fst (UpdateIP conf dir ip net w) = None \<longleftrightarrow> confirmed_by net conf ip w"
  by (simp add: UpdateIP_def confirmed_by_def Let_def checkResponse_fst
      split: http_reply.splits option.splits)

lemma UpdateIP_files:
  "files (snd (UpdateIP conf dir ip net w)) =
     (if confirmed_by net conf ip w \<and> write_ok w (ipCacheFilepath dir (Hostname conf))
      then (files w)(ipCacheFilepath dir (Hostname conf) \<mapsto> ip) else files w)"
  by (simp add: UpdateIP_def confirmed_by_def Let_def checkResponse_files cacheIP_files
      split: http_reply.splits option.splits)

lemma UpdateIP_frame:
  "read_ok (snd (UpdateIP conf dir ip net w)) = read_ok w"
  "write_ok (snd (UpdateIP conf dir ip net w)) = write_ok w"
  by (simp_all add: UpdateIP_def Let_def checkResponse_frame
      split: http_reply.splits option.splits)

text \<open>
  The cache file of a hostname without a slash is the cleaned directory followed by
  \<open>ip.cache.\<close> and the hostname, so two such hostnames share a file only when equal.
\<close>

lemma strings_Join_snoc:
  "strings_Join (ys @ [n]) = (if ys = [] then n else strings_Join ys @ ''/'' @ n)"
  by (induction ys rule: strings_Join.induct) auto

lemma clean_push_name:
  "n \<noteq> [] \<Longrightarrow> hd n = CHR ''i'' \<Longrightarrow> clean_push rooted out n = n # out"
  by (cases n) (auto simp: clean_push_def)

lemma filepath_Join_name:
  assumes "CHR ''/'' \<notin> set n" and "n \<noteq> []" and "hd n = CHR ''i''"
  shows "filepath_Join dir n =
           (if dir = [] then []
            else (if hd dir = CHR ''/'' then ''/'' else [])
                 @ (if foldl (clean_push (hd dir = CHR ''/'')) [] (strings_Split dir CHR ''/'') = []
                    then []
                    else strings_Join (rev (foldl (clean_push (hd dir = CHR ''/'')) []
                                              (strings_Split dir CHR ''/''))) @ ''/''))
           @ n"
proof (cases "dir = []")
  case True
  have "hd n \<noteq> CHR ''/''" using assms by simp
  then show ?thesis using True assms
    by (simp add: filepath_Join_def filepath_Clean_def strings_Split_no_sep clean_push_name)
next
  case False
  then show ?thesis using assms
    by (simp add: filepath_Join_def filepath_Clean_def Let_def strings_Split_last
        clean_push_name strings_Join_snoc)
qed

lemma ipCacheFilepath_inj:
  assumes "CHR ''/'' \<notin> set h1" and "CHR ''/'' \<notin> set h2"
    and "ipCacheFilepath dir h1 = ipCacheFilepath dir h2"
  shows "h1 = h2"
proof -
  have n1: "CHR ''/'' \<notin> set (ipCacheFilename @ ''.'' @ h1)"
    "ipCacheFilename @ ''.'' @ h1 \<noteq> []"
    "hd (ipCacheFilename @ ''.'' @ h1) = CHR ''i''"
    using assms(1) by (simp_all add: ipCacheFilename_def)
  have n2: "CHR ''/'' \<notin> set (ipCacheFilename @ ''.'' @ h2)"
    "ipCacheFilename @ ''.'' @ h2 \<noteq> []"
    "hd (ipCacheFilename @ ''.'' @ h2) = CHR ''i''"
    using assms(2) by (simp_all add: ipCacheFilename_def)
  from assms(3) show ?thesis
    unfolding ipCacheFilepath_def filepath_Join_name[OF n1] filepath_Join_name[OF n2]
    by simp
qed

text \<open>The loop body, by whether the hostname is configured.\<close>

lemma main_step_unknown:
  "ConfigForHostname confs h = None \<Longrightarrow>
   main_step ip confs dir net h (e, w) =
     (e, logPrintf (LogNoSuchHostname h) (logPrintf (LogProcessing h) w))"
  by (simp add: main_step_def Let_def)

lemma main_step_known:
  "ConfigForHostname confs h = Some conf \<Longrightarrow>
   main_step ip confs dir net h (e, w) =
     (case LoadCachedIP conf dir (logPrintf (LogProcessing h) w) of
        ((savedIP, Some loadErr), w2) \<Rightarrow> (Some loadErr, w2)
      | ((savedIP, None), w2) \<Rightarrow>
          (if ip \<noteq> savedIP then
             (case UpdateIP conf dir ip net w2 of
                (Some updateErr, w3) \<Rightarrow>
                  (Some updateErr, logPrintf (LogFailedUpdate ip (Hostname conf) updateErr) w3)
              | (None, w3) \<Rightarrow> (None, w3))
           else (None, logPrintf (LogCachedAlreadySet savedIP (Hostname conf)) w2)))"
  by (simp add: main_step_def Let_def)

text \<open>
  A pass over hostnames none of which needs an update sends nothing, and leaves none
  needing one.
\<close>

lemma LoadCachedIP_fst_logPrintf:
  "fst (LoadCachedIP conf dir (logPrintf ev w)) = fst (LoadCachedIP conf dir w)"
  by (simp add: LoadCachedIP_fst split: option.splits)

lemma needs_update_iff:
  "needs_update ip dir c w =
     ((files w (ipCacheFilepath dir (Hostname c)) = None \<and> ip \<noteq> fallbackIP)
      \<or> (\<exists>d. files w (ipCacheFilepath dir (Hostname c)) = Some d
              \<and> read_ok w (ipCacheFilepath dir (Hostname c)) \<and> ip \<noteq> d))"
  by (auto simp add: needs_update_def LoadCachedIP_fst split: option.splits)

lemma needs_update_logPrintf:
  "needs_update ip dir c (logPrintf ev w) = needs_update ip dir c w"
  by (simp add: needs_update_iff)

lemma needs_update_after_load:
  assumes "\<not> needs_update ip dir conf w" and "\<not> needs_update ip dir c w"
  shows "\<not> needs_update ip dir c (snd (LoadCachedIP conf dir w))"
  using assms
  by (auto simp add: needs_update_iff LoadCachedIP_files LoadCachedIP_frame
      split: option.splits if_splits)

lemma main_step_settled:
  assumes "ConfigForHostname confs h = Some conf" and "\<not> needs_update ip dir conf w"
  shows "main_step ip confs dir net h (e, w) =
           (case LoadCachedIP conf dir (logPrintf (LogProcessing h) w) of
              ((savedIP, Some loadErr), w2) \<Rightarrow> (Some loadErr, w2)
            | ((savedIP, None), w2) \<Rightarrow>
                (None, logPrintf (LogCachedAlreadySet savedIP (Hostname conf)) w2))"
proof -
  have "\<not> needs_update ip dir conf (logPrintf (LogProcessing h) w)"
    using assms(2) by (simp add: needs_update_logPrintf)
  then show ?thesis using assms(1)
    by (auto simp add: main_step_known needs_update_def split: prod.splits option.splits)
qed

lemma main_step_settled_world:
  assumes "ConfigForHostname confs h = Some conf" and "\<not> needs_update ip dir conf w"
  shows "sent (snd (main_step ip confs dir net h (e, w))) = sent w"
    and "files (snd (main_step ip confs dir net h (e, w))) = files (snd (LoadCachedIP conf dir w))"
    and "read_ok (snd (main_step ip confs dir net h (e, w))) = read_ok w"
proof -
  let ?w1 = "logPrintf (LogProcessing h) w"
  obtain r le w2 where l: "LoadCachedIP conf dir ?w1 = ((r, le), w2)"
    by (metis prod.collapse)
  then have w2: "w2 = snd (LoadCachedIP conf dir ?w1)" by simp
  have m: "snd (main_step ip confs dir net h (e, w)) =
     (case le of None \<Rightarrow> logPrintf (LogCachedAlreadySet r (Hostname conf)) w2 | Some x \<Rightarrow> w2)"
    by (simp add: main_step_settled[OF assms] l split: option.splits)
  show "sent (snd (main_step ip confs dir net h (e, w))) = sent w"
    by (simp add: m w2 LoadCachedIP_frame split: option.splits)
  show "files (snd (main_step ip confs dir net h (e, w))) = files (snd (LoadCachedIP conf dir w))"
    by (simp add: m w2 LoadCachedIP_files split: option.splits)
  show "read_ok (snd (main_step ip confs dir net h (e, w))) = read_ok w"
    by (simp add: m w2 LoadCachedIP_frame split: option.splits)
qed

lemma main_step_no_update:
  assumes "\<forall>conf. ConfigForHostname confs h = Some conf \<longrightarrow> \<not> needs_update ip dir conf w"
  shows "sent (snd (main_step ip confs dir net h (e, w))) = sent w"
    and "\<not> needs_update ip dir c w \<Longrightarrow>
           \<not> needs_update ip dir c (snd (main_step ip confs dir net h (e, w)))"
proof -
  show "sent (snd (main_step ip confs dir net h (e, w))) = sent w"
  proof (cases "ConfigForHostname confs h")
    case None
    then show ?thesis by (simp add: main_step_unknown)
  next
    case (Some conf)
    with assms have n: "\<not> needs_update ip dir conf w" by simp
    show ?thesis by (rule main_step_settled_world(1)[OF Some n])
  qed
  assume c: "\<not> needs_update ip dir c w"
  show "\<not> needs_update ip dir c (snd (main_step ip confs dir net h (e, w)))"
  proof (cases "ConfigForHostname confs h")
    case None
    then show ?thesis using c by (simp add: main_step_unknown needs_update_logPrintf)
  next
    case (Some conf)
    with assms have n: "\<not> needs_update ip dir conf w" by simp
    have k: "\<not> needs_update ip dir c (snd (LoadCachedIP conf dir w))"
      by (rule needs_update_after_load[OF n c])
    have "needs_update ip dir c (snd (main_step ip confs dir net h (e, w)))
        = needs_update ip dir c (snd (LoadCachedIP conf dir w))"
      by (simp add: needs_update_iff main_step_settled_world[OF Some n] LoadCachedIP_frame)
    then show ?thesis using k by simp
  qed
qed

lemma main_loop_no_update:
  assumes "\<forall>h\<in>set hs. \<forall>conf. ConfigForHostname confs h = Some conf
             \<longrightarrow> \<not> needs_update ip dir conf w"
  shows "sent (snd (main_loop ip confs dir net hs (e, w))) = sent w
       \<and> (\<forall>c. \<not> needs_update ip dir c w \<longrightarrow>
              \<not> needs_update ip dir c (snd (main_loop ip confs dir net hs (e, w))))"
  using assms
proof (induction hs arbitrary: e w)
  case Nil
  then show ?case by simp
next
  case (Cons h hs)
  obtain e1 w1 where s: "main_step ip confs dir net h (e, w) = (e1, w1)"
    by (cases "main_step ip confs dir net h (e, w)")
  have h: "\<forall>conf. ConfigForHostname confs h = Some conf \<longrightarrow> \<not> needs_update ip dir conf w"
    using Cons.prems by simp
  have sent1: "sent w1 = sent w"
    using main_step_no_update(1)[OF h, of net e] s by simp
  have keep: "\<And>c. \<not> needs_update ip dir c w \<Longrightarrow> \<not> needs_update ip dir c w1"
    using main_step_no_update(2)[OF h, of _ net e] s by simp
  have "\<forall>h\<in>set hs. \<forall>conf. ConfigForHostname confs h = Some conf
          \<longrightarrow> \<not> needs_update ip dir conf w1"
    using Cons.prems keep by simp
  from Cons.IH[OF this, of e1] show ?case
    using s sent1 keep by simp
qed

text \<open>The definitions a run on concrete inputs unfolds, and the two cache paths there.\<close>

lemmas run_defs = main_def main_ipAddr_def main_step_def GetExternalIP_def
  ConfigForHostname_def LoadCachedIP_def UpdateIP_def checkResponse_def cacheIP_def
  os_Stat_def os_ReadFile_def os_WriteFile_def logPrintf_def apiURL_def fallbackIP_def
  checkIPURL_def conf_a_def conf_b_def confs_ab_def disk_def answers_def Let_def

lemma path_conf_a:
  "ipCacheFilepath ''/etc/ddns'' (Hostname conf_a) = ''/etc/ddns/ip.cache.a.example.com''"
  by (simp add: conf_a_def path_a)

lemma path_conf_b:
  "ipCacheFilepath ''/etc/ddns'' (Hostname conf_b) = ''/etc/ddns/ip.cache.b.example.com''"
  by (simp add: conf_b_def path_b)

section \<open>The response of the provider\<close>

text \<open>
  Claim C1 says that a response of two tokens whose second token is the requested IP
  is a success exactly when its first token is \<open>good\<close> or \<open>nochg\<close>, and that any other
  first token gives no success and no cache save. \<open>checkResponse\<close> decides on the
  number of components and on the second one: the response \<open>foo 1.2.3.4\<close> to a request
  for 1.2.3.4 returns no error and saves 1.2.3.4 in the cache.
\<close>

theorem C1_unknown_status_counterexample:
  "fst (checkResponse conf_a ''/etc/ddns'' ''foo 1.2.3.4'' ''1.2.3.4'' (disk [] True)) = None
   \<and> files (snd (checkResponse conf_a ''/etc/ddns'' ''foo 1.2.3.4'' ''1.2.3.4'' (disk [] True)))
        ''/etc/ddns/ip.cache.a.example.com'' = Some ''1.2.3.4''"
  by (simp add: checkResponse_def cacheIP_def os_WriteFile_def logPrintf_def conf_a_def
      disk_def path_a Let_def)

text \<open>
  Claim C1, amended: for every response of two space-separated tokens whose second
  token is the requested IP, the outcome is a success (no error) and the cache save is
  made, whatever the first token is; \<open>good\<close> and \<open>nochg\<close> only choose the log line
  written after the save.
\<close>

theorem C1_echoed_ip_is_success:
  assumes "CHR '' '' \<notin> set status" and "CHR '' '' \<notin> set ip"
  shows "checkResponse conf dir (status @ '' '' @ ip) ip w =
           (None,
            if status = ''good'' then logPrintf LogUpdateSuccessful (snd (cacheIP conf dir ip w))
            else if status = ''nochg''
              then logPrintf (LogAlreadySetAtProvider ip (Hostname conf))
                     (snd (cacheIP conf dir ip w))
            else snd (cacheIP conf dir ip w))"
  using assms by (simp add: checkResponse_two)

theorem C1_echoed_ip_is_success_witness:
  "checkResponse conf_a ''/etc/ddns'' ''good 1.2.3.4'' ''1.2.3.4'' (disk [] True) =
     (None,
      logPrintf LogUpdateSuccessful
        (snd (cacheIP conf_a ''/etc/ddns'' ''1.2.3.4'' (disk [] True))))"
  using C1_echoed_ip_is_success
    [of "''good''" "''1.2.3.4''" conf_a "''/etc/ddns''" "disk [] True"]
  by simp

text \<open>
  Claim C3: a response of two tokens whose second token differs from the requested IP
  gives the mismatch error and leaves every cache file as it was, whatever the first
  token is, \<open>good\<close> and \<open>nochg\<close> included.
\<close>

theorem C3_mismatch_fails:
  assumes "CHR '' '' \<notin> set status" and "CHR '' '' \<notin> set returned" and "returned \<noteq> ip"
  shows "fst (checkResponse conf dir (status @ '' '' @ returned) ip w)
           = Some (ErrMismatch returned ip)
         \<and> files (snd (checkResponse conf dir (status @ '' '' @ returned) ip w)) = files w"
  using assms by (auto simp add: checkResponse_two)

theorem C3_mismatch_fails_witness:
  "fst (checkResponse conf_a ''/etc/ddns'' ''good 5.6.7.8'' ''1.2.3.4''
          (disk [(''/etc/ddns/ip.cache.a.example.com'', ''9.9.9.9'')] True))
      = Some (ErrMismatch ''5.6.7.8'' ''1.2.3.4'')
   \<and> files (snd (checkResponse conf_a ''/etc/ddns'' ''good 5.6.7.8'' ''1.2.3.4''
                   (disk [(''/etc/ddns/ip.cache.a.example.com'', ''9.9.9.9'')] True)))
        ''/etc/ddns/ip.cache.a.example.com'' = Some ''9.9.9.9''"
  using C3_mismatch_fails
    [of "''good''" "''5.6.7.8''" "''1.2.3.4''" conf_a "''/etc/ddns''"
        "disk [(''/etc/ddns/ip.cache.a.example.com'', ''9.9.9.9'')] True"]
  by (simp add: disk_def)

text \<open>
  Claim C6: a response with no space in it always gives an error, the one of its
  token for the six known tokens and the unhandled-response error carrying the
  response otherwise, and the world (the cache files with it) is returned as it was.
\<close>

theorem C6_single_token_fails:
  assumes "CHR '' '' \<notin> set response"
  shows "checkResponse conf dir response ip w =
           (Some (if response = ''nohost'' then ErrNoHost (Hostname conf)
                  else if response = ''badauth''
                    then ErrBadAuth (Username conf) (Password conf) (Hostname conf)
                  else if response = ''notfqdn'' then ErrNotFQDN (Hostname conf)
                  else if response = ''badagent'' then ErrBadAgent
                  else if response = ''abuse'' then ErrAbuse (Hostname conf)
                  else if response = ''911'' then Err911
                  else ErrUnhandled response),
            w)"
  using assms by (simp add: checkResponse_def strings_Split_no_sep)

theorem C6_single_token_fails_witness:
  "checkResponse conf_a ''/etc/ddns'' ''badauth'' ''1.2.3.4'' (disk [] True)
     = (Some (ErrBadAuth ''u'' ''p'' ''a.example.com''), disk [] True)"
  using C6_single_token_fails [of "''badauth''" conf_a "''/etc/ddns''" "''1.2.3.4''" "disk [] True"]
  by (simp add: conf_a_def)

section \<open>The cache store and the update\<close>

text \<open>
  Claim C2 says that an update attempt changes the cache entry of its hostname
  exactly when the response is a success-status response (\<open>good\<close> or \<open>nochg\<close>)
  echoing the requested IP. The response \<open>fail 1.2.3.4\<close> to a request for 1.2.3.4 has
  the first token \<open>fail\<close>, and the attempt changes the cache entry from 0.0.0.0 to
  1.2.3.4.
\<close>

theorem C2_unknown_status_writes_cache_counterexample:
  "strings_Split ''fail 1.2.3.4'' CHR '' '' = [''fail'', ''1.2.3.4'']
   \<and> files (disk [(''/etc/ddns/ip.cache.a.example.com'', ''0.0.0.0'')] True)
        ''/etc/ddns/ip.cache.a.example.com'' = Some ''0.0.0.0''
   \<and> files (snd (UpdateIP conf_a ''/etc/ddns'' ''1.2.3.4''
                   (answers (DoError None) (\<lambda>_. DoOk 200 (Some ''fail 1.2.3.4'')))
                   (disk [(''/etc/ddns/ip.cache.a.example.com'', ''0.0.0.0'')] True)))
        ''/etc/ddns/ip.cache.a.example.com'' = Some ''1.2.3.4''"
  by (simp add: UpdateIP_files confirmed_by_def accepted_def answers_def disk_def conf_a_def
      path_a)

text \<open>
  Claim C2, amended: an update attempt returns no error exactly when the request was
  built, a response came, its body was read, and the body has at least two
  space-separated components the second of which is the requested IP (whatever the
  first is). Exactly then the attempt writes the cache file of the hostname: the file
  holds the requested IP afterwards when the write succeeds, and a write that fails
  is ignored. In every other case, and after a failed write, every cache file is what
  it was before.
\<close>

theorem C2_cache_written_iff_echoed:
  "(fst (UpdateIP conf dir ip net w) = None \<longleftrightarrow> confirmed_by net conf ip w)
   \<and> files (snd (UpdateIP conf dir ip net w)) =
     (if confirmed_by net conf ip w \<and> write_ok w (ipCacheFilepath dir (Hostname conf))
      then (files w)(ipCacheFilepath dir (Hostname conf) \<mapsto> ip) else files w)"
  by (simp only: UpdateIP_fst UpdateIP_files simp_thms)

text \<open>
  Claim C7 says that a load for a hostname with no cache file writes the sentinel as
  the cache value and returns it. \<open>LoadCachedIP\<close> discards the error of its
  \<open>cacheIP\<close> call: where the write fails, the load still returns the sentinel with no
  error and there is still no cache file.
\<close>

theorem C7_failed_write_counterexample:
  "files (disk [] False) ''/etc/ddns/ip.cache.a.example.com'' = None
   \<and> fst (LoadCachedIP conf_a ''/etc/ddns'' (disk [] False)) = (''0.0.0.0'', None)
   \<and> files (snd (LoadCachedIP conf_a ''/etc/ddns'' (disk [] False)))
        ''/etc/ddns/ip.cache.a.example.com'' = None"
  by (simp add: LoadCachedIP_fst LoadCachedIP_files disk_def conf_a_def path_a fallbackIP_def)

text \<open>
  Claim C7, amended: for every hostname with no cache file, the load returns the
  sentinel with no error, after a write of the sentinel whose failure it ignores:
  afterwards the cache file holds the sentinel when the write succeeds, and the files
  are unchanged when it fails. In both cases the loop body for that hostname, with
  a resolved IP other than the sentinel, goes on to \<open>UpdateIP\<close> with the resolved IP.
\<close>

theorem C7_load_without_cache_file:
  assumes "files w (ipCacheFilepath dir (Hostname conf)) = None"
  shows "fst (LoadCachedIP conf dir w) = (fallbackIP, None)
    \<and> files (snd (LoadCachedIP conf dir w)) =
        (if write_ok w (ipCacheFilepath dir (Hostname conf))
         then (files w)(ipCacheFilepath dir (Hostname conf) \<mapsto> fallbackIP) else files w)
    \<and> (ConfigForHostname confs h = Some conf \<and> ip \<noteq> fallbackIP \<longrightarrow>
         main_step ip confs dir net h (e, w) =
           (case UpdateIP conf dir ip net
                   (snd (LoadCachedIP conf dir (logPrintf (LogProcessing h) w))) of
              (Some updateErr, w3) \<Rightarrow>
                (Some updateErr, logPrintf (LogFailedUpdate ip (Hostname conf) updateErr) w3)
            | (None, w3) \<Rightarrow> (None, w3)))"
proof -
  obtain w2 where
    "LoadCachedIP conf dir (logPrintf (LogProcessing h) w) = ((fallbackIP, None), w2)"
    using assms by (simp add: LoadCachedIP_absent)
  then have "ConfigForHostname confs h = Some conf \<Longrightarrow> ip \<noteq> fallbackIP \<Longrightarrow>
         main_step ip confs dir net h (e, w) =
           (case UpdateIP conf dir ip net
                   (snd (LoadCachedIP conf dir (logPrintf (LogProcessing h) w))) of
              (Some updateErr, w3) \<Rightarrow>
                (Some updateErr, logPrintf (LogFailedUpdate ip (Hostname conf) updateErr) w3)
            | (None, w3) \<Rightarrow> (None, w3))"
    by (simp add: main_step_known)
  then show ?thesis using assms
    by (simp add: LoadCachedIP_fst LoadCachedIP_files)
qed

theorem C7_load_without_cache_file_witness:
  "fst (LoadCachedIP conf_a ''/etc/ddns'' (disk [] True)) = (''0.0.0.0'', None)
   \<and> files (snd (LoadCachedIP conf_a ''/etc/ddns'' (disk [] True)))
        ''/etc/ddns/ip.cache.a.example.com'' = Some ''0.0.0.0''
   \<and> sent (snd (main_step ''9.9.9.9'' confs_ab ''/etc/ddns''
                  (answers (DoError None) (\<lambda>_. DoOk 200 (Some ''good 9.9.9.9'')))
                  ''a.example.com'' (None, disk [] True)))
       = [''https://u:p@domains.google.com/nic/update?hostname=a.example.com&myip=9.9.9.9'']"
proof -
  have absent: "files (disk [] True) (ipCacheFilepath ''/etc/ddns'' (Hostname conf_a)) = None"
    by (simp add: disk_def)
  have known:
    "ConfigForHostname confs_ab ''a.example.com'' = Some conf_a \<and> ''9.9.9.9'' \<noteq> fallbackIP"
    by (simp add: ConfigForHostname_def confs_ab_def conf_a_def conf_b_def fallbackIP_def)
  note t = C7_load_without_cache_file [OF absent, of confs_ab "''a.example.com''" "''9.9.9.9''"
      "answers (DoError None) (\<lambda>_. DoOk 200 (Some ''good 9.9.9.9''))" None]
  have w: "write_ok (disk [] True) (ipCacheFilepath ''/etc/ddns'' (Hostname conf_a))"
    by (simp add: disk_def)
  have s: "sent (snd (case UpdateIP conf_a ''/etc/ddns'' ''9.9.9.9''
              (answers (DoError None) (\<lambda>_. DoOk 200 (Some ''good 9.9.9.9'')))
              (snd (LoadCachedIP conf_a ''/etc/ddns''
                     (logPrintf (LogProcessing ''a.example.com'') (disk [] True)))) of
            (Some updateErr, w3) \<Rightarrow>
              (Some updateErr,
               logPrintf (LogFailedUpdate ''9.9.9.9'' (Hostname conf_a) updateErr) w3)
          | (None, w3) \<Rightarrow> (None, w3)))
       = [''https://u:p@domains.google.com/nic/update?hostname=a.example.com&myip=9.9.9.9'']"
    by (simp add: run_defs path_a)
  from t known have m: "main_step ''9.9.9.9'' confs_ab ''/etc/ddns''
        (answers (DoError None) (\<lambda>_. DoOk 200 (Some ''good 9.9.9.9'')))
        ''a.example.com'' (None, disk [] True) =
      (case UpdateIP conf_a ''/etc/ddns'' ''9.9.9.9''
              (answers (DoError None) (\<lambda>_. DoOk 200 (Some ''good 9.9.9.9'')))
              (snd (LoadCachedIP conf_a ''/etc/ddns''
                     (logPrintf (LogProcessing ''a.example.com'') (disk [] True)))) of
            (Some updateErr, w3) \<Rightarrow>
              (Some updateErr,
               logPrintf (LogFailedUpdate ''9.9.9.9'' (Hostname conf_a) updateErr) w3)
          | (None, w3) \<Rightarrow> (None, w3))"
    by blast
  from t have "fst (LoadCachedIP conf_a ''/etc/ddns'' (disk [] True)) = (fallbackIP, None)"
    and "files (snd (LoadCachedIP conf_a ''/etc/ddns'' (disk [] True)))
       = (files (disk [] True))(ipCacheFilepath ''/etc/ddns'' (Hostname conf_a) \<mapsto> fallbackIP)"
    using w by simp_all
  then show ?thesis
    by (simp add: m s path_conf_a fallbackIP_def)
qed

text \<open>
  Claim C9 says that after an update attempt for IP \<open>x\<close> that returns success, a load
  for the hostname returns \<open>x\<close>. \<open>checkResponse\<close> discards the error of its
  \<open>cacheIP\<close> call: where the write fails, the attempt answered \<open>good 9.9.9.9\<close> returns
  no error and the next load still returns the old 1.1.1.1.
\<close>

theorem C9_failed_write_counterexample:
  "fst (UpdateIP conf_a ''/etc/ddns'' ''9.9.9.9''
          (answers (DoError None) (\<lambda>_. DoOk 200 (Some ''good 9.9.9.9'')))
          (disk [(''/etc/ddns/ip.cache.a.example.com'', ''1.1.1.1'')] False)) = None
   \<and> fst (LoadCachedIP conf_a ''/etc/ddns''
         (snd (UpdateIP conf_a ''/etc/ddns'' ''9.9.9.9''
          (answers (DoError None) (\<lambda>_. DoOk 200 (Some ''good 9.9.9.9'')))
          (disk [(''/etc/ddns/ip.cache.a.example.com'', ''1.1.1.1'')] False))))
       = (''1.1.1.1'', None)"
proof -
  let ?w = "snd (UpdateIP conf_a ''/etc/ddns'' ''9.9.9.9''
          (answers (DoError None) (\<lambda>_. DoOk 200 (Some ''good 9.9.9.9'')))
          (disk [(''/etc/ddns/ip.cache.a.example.com'', ''1.1.1.1'')] False))"
  have f: "files ?w (ipCacheFilepath ''/etc/ddns'' (Hostname conf_a)) = Some ''1.1.1.1''"
    by (simp add: UpdateIP_files disk_def conf_a_def path_a)
  have r: "read_ok ?w (ipCacheFilepath ''/etc/ddns'' (Hostname conf_a))"
    by (simp add: UpdateIP_frame disk_def)
  have "fst (UpdateIP conf_a ''/etc/ddns'' ''9.9.9.9''
          (answers (DoError None) (\<lambda>_. DoOk 200 (Some ''good 9.9.9.9'')))
          (disk [(''/etc/ddns/ip.cache.a.example.com'', ''1.1.1.1'')] False)) = None"
    by (simp add: UpdateIP_fst confirmed_by_def accepted_def answers_def disk_def)
  moreover have "fst (LoadCachedIP conf_a ''/etc/ddns'' ?w) = (''1.1.1.1'', None)"
    using f r by (simp add: LoadCachedIP_present)
  ultimately show ?thesis by simp
qed

text \<open>
  Claim C9, amended: after an update attempt for a hostname with requested IP \<open>x\<close>
  that returns no error, a load for that hostname returns exactly \<open>x\<close> with no error,
  provided the cache file of the hostname can be written (the attempt ignores a failed
  save) and read.
\<close>

theorem C9_load_after_successful_update:
  assumes "fst (UpdateIP conf dir x net w) = None"
    and "write_ok w (ipCacheFilepath dir (Hostname conf))"
    and "read_ok w (ipCacheFilepath dir (Hostname conf))"
  shows "fst (LoadCachedIP conf dir (snd (UpdateIP conf dir x net w))) = (x, None)"
proof -
  let ?p = "ipCacheFilepath dir (Hostname conf)"
  let ?w = "snd (UpdateIP conf dir x net w)"
  from assms have "files ?w ?p = Some x"
    by (simp add: UpdateIP_files UpdateIP_fst)
  moreover have "read_ok ?w ?p" using assms(3) by (simp add: UpdateIP_frame)
  ultimately show ?thesis by (simp add: LoadCachedIP_present)
qed

theorem C9_load_after_successful_update_witness:
  "fst (LoadCachedIP conf_a ''/etc/ddns''
         (snd (UpdateIP conf_a ''/etc/ddns'' ''9.9.9.9''
          (answers (DoError None) (\<lambda>_. DoOk 200 (Some ''good 9.9.9.9'')))
          (disk [(''/etc/ddns/ip.cache.a.example.com'', ''1.1.1.1'')] True))))
       = (''9.9.9.9'', None)"
proof -
  have "fst (UpdateIP conf_a ''/etc/ddns'' ''9.9.9.9''
          (answers (DoError None) (\<lambda>_. DoOk 200 (Some ''good 9.9.9.9'')))
          (disk [(''/etc/ddns/ip.cache.a.example.com'', ''1.1.1.1'')] True)) = None"
    by (simp add: UpdateIP_fst confirmed_by_def accepted_def answers_def disk_def)
  then show ?thesis
    by (rule C9_load_after_successful_update) (simp_all add: disk_def)
qed

text \<open>
  Claim C10: for two distinct hostnames with no slash in them (the path separator of
  Unix, which \<open>filepath_Clean\<close> models), the cache files differ, so a save for the
  first, a load of the first (which may create its sentinel file) and an update
  attempt for the first leave the cache file of the second as it was, and a load of
  the second returns afterwards what it returned before.
\<close>

theorem C10_other_hostname_untouched:
  assumes "Hostname c1 \<noteq> Hostname c2"
    and "CHR ''/'' \<notin> set (Hostname c1)" and "CHR ''/'' \<notin> set (Hostname c2)"
  shows "ipCacheFilepath dir (Hostname c1) \<noteq> ipCacheFilepath dir (Hostname c2)
    \<and> files (snd (cacheIP c1 dir ip w)) (ipCacheFilepath dir (Hostname c2))
        = files w (ipCacheFilepath dir (Hostname c2))
    \<and> files (snd (LoadCachedIP c1 dir w)) (ipCacheFilepath dir (Hostname c2))
        = files w (ipCacheFilepath dir (Hostname c2))
    \<and> files (snd (UpdateIP c1 dir ip net w)) (ipCacheFilepath dir (Hostname c2))
        = files w (ipCacheFilepath dir (Hostname c2))
    \<and> fst (LoadCachedIP c2 dir (snd (cacheIP c1 dir ip w))) = fst (LoadCachedIP c2 dir w)
    \<and> fst (LoadCachedIP c2 dir (snd (LoadCachedIP c1 dir w))) = fst (LoadCachedIP c2 dir w)"
proof -
  have ne: "ipCacheFilepath dir (Hostname c1) \<noteq> ipCacheFilepath dir (Hostname c2)"
    using assms ipCacheFilepath_inj by blast
  then show ?thesis
    by (simp add: LoadCachedIP_fst cacheIP_files cacheIP_frame LoadCachedIP_files
        LoadCachedIP_frame UpdateIP_files split: option.splits)
qed

theorem C10_other_hostname_untouched_witness:
  "files (snd (cacheIP conf_a ''/etc/ddns'' ''9.9.9.9''
                 (disk [(''/etc/ddns/ip.cache.b.example.com'', ''1.1.1.1'')] True)))
     ''/etc/ddns/ip.cache.b.example.com'' = Some ''1.1.1.1''
   \<and> fst (LoadCachedIP conf_b ''/etc/ddns''
           (snd (LoadCachedIP conf_a ''/etc/ddns''
              (disk [(''/etc/ddns/ip.cache.b.example.com'', ''1.1.1.1'')] True))))
       = (''1.1.1.1'', None)"
proof -
  let ?w = "disk [(''/etc/ddns/ip.cache.b.example.com'', ''1.1.1.1'')] True"
  have h: "Hostname conf_a \<noteq> Hostname conf_b" "CHR ''/'' \<notin> set (Hostname conf_a)"
    "CHR ''/'' \<notin> set (Hostname conf_b)"
    by (simp_all add: conf_a_def conf_b_def)
  have a: "files ?w ''/etc/ddns/ip.cache.b.example.com'' = Some ''1.1.1.1''"
    by (simp add: disk_def)
  have b: "fst (LoadCachedIP conf_b ''/etc/ddns'' ?w) = (''1.1.1.1'', None)"
    by (simp add: LoadCachedIP_fst path_conf_b a) (simp add: disk_def)
  show ?thesis
    using C10_other_hostname_untouched [OF h, of "''/etc/ddns''" "''9.9.9.9''" ?w
        "answers (DoError None) (\<lambda>_. DoError None)"]
    by (simp only: path_conf_b a b)
qed

section \<open>The reconciler\<close>

text \<open>
  Claim C8: for a configured hostname whose cached IP, as the load returns it, is the
  resolved IP, the loop body sends no update request, logs that the cached IP is
  already set, and leaves the cache files as the load left them (the load itself
  creates the sentinel file when there is none). When this holds of every requested
  hostname, a pass over them sends no update request, and neither does a second pass
  that follows it with the same resolved IP. And when it holds of every requested
  hostname after a first pass (which may have sent updates and saved their IP), the
  second pass sends no update request.
\<close>

theorem C8_cached_ip_means_no_update:
  "(ConfigForHostname confs h = Some conf \<and> fst (LoadCachedIP conf dir w) = (ip, None) \<longrightarrow>
      main_step ip confs dir net h (e, w) =
        (None, logPrintf (LogCachedAlreadySet ip (Hostname conf))
                 (snd (LoadCachedIP conf dir (logPrintf (LogProcessing h) w))))
      \<and> sent (snd (main_step ip confs dir net h (e, w))) = sent w
      \<and> files (snd (main_step ip confs dir net h (e, w))) = files (snd (LoadCachedIP conf dir w)))
   \<and> ((\<forall>h\<in>set hs. \<forall>conf. ConfigForHostname confs h = Some conf \<longrightarrow>
          fst (LoadCachedIP conf dir w) = (ip, None)) \<longrightarrow>
      sent (snd (main_loop ip confs dir net hs (e, w))) = sent w
      \<and> sent (snd (main_loop ip confs dir net' hs
                     (e', snd (main_loop ip confs dir net hs (e, w))))) = sent w)
   \<and> ((\<forall>h\<in>set hs. \<forall>conf. ConfigForHostname confs h = Some conf \<longrightarrow>
          fst (LoadCachedIP conf dir (snd (main_loop ip confs dir net hs (e, w)))) = (ip, None)) \<longrightarrow>
      sent (snd (main_loop ip confs dir net' hs
                     (e', snd (main_loop ip confs dir net hs (e, w)))))
        = sent (snd (main_loop ip confs dir net hs (e, w))))"
proof (intro conjI impI)
  assume a: "ConfigForHostname confs h = Some conf \<and> fst (LoadCachedIP conf dir w) = (ip, None)"
  then have k: "ConfigForHostname confs h = Some conf"
    and l: "fst (LoadCachedIP conf dir w) = (ip, None)"
    by simp_all
  have "fst (LoadCachedIP conf dir (logPrintf (LogProcessing h) w)) = (ip, None)"
    using l by (simp add: LoadCachedIP_fst_logPrintf)
  then obtain w2 where
    w2: "LoadCachedIP conf dir (logPrintf (LogProcessing h) w) = ((ip, None), w2)"
    by (metis prod.collapse)
  show m: "main_step ip confs dir net h (e, w) =
        (None, logPrintf (LogCachedAlreadySet ip (Hostname conf))
                 (snd (LoadCachedIP conf dir (logPrintf (LogProcessing h) w))))"
    using w2 by (simp add: main_step_known[OF k])
  show "sent (snd (main_step ip confs dir net h (e, w))) = sent w"
    by (simp add: m LoadCachedIP_frame)
  show "files (snd (main_step ip confs dir net h (e, w))) = files (snd (LoadCachedIP conf dir w))"
    by (simp add: m LoadCachedIP_files)
next
  assume a: "\<forall>h\<in>set hs. \<forall>conf. ConfigForHostname confs h = Some conf \<longrightarrow>
          fst (LoadCachedIP conf dir w) = (ip, None)"
  then have n: "\<forall>h\<in>set hs. \<forall>conf. ConfigForHostname confs h = Some conf \<longrightarrow>
      \<not> needs_update ip dir conf w"
    by (simp add: needs_update_def)
  note first = main_loop_no_update[OF n, of net e]
  show "sent (snd (main_loop ip confs dir net hs (e, w))) = sent w"
    using first by simp
  have "\<forall>h\<in>set hs. \<forall>conf. ConfigForHostname confs h = Some conf \<longrightarrow>
      \<not> needs_update ip dir conf (snd (main_loop ip confs dir net hs (e, w)))"
    using first n by blast
  from main_loop_no_update[OF this, of net' e']
  show "sent (snd (main_loop ip confs dir net' hs
                     (e', snd (main_loop ip confs dir net hs (e, w))))) = sent w"
    using first by simp
next
  let ?w1 = "snd (main_loop ip confs dir net hs (e, w))"
  assume "\<forall>h\<in>set hs. \<forall>conf. ConfigForHostname confs h = Some conf \<longrightarrow>
          fst (LoadCachedIP conf dir ?w1) = (ip, None)"
  then have "\<forall>h\<in>set hs. \<forall>conf. ConfigForHostname confs h = Some conf \<longrightarrow>
      \<not> needs_update ip dir conf ?w1"
    by (simp add: needs_update_def)
  from main_loop_no_update[OF this, of net' e']
  show "sent (snd (main_loop ip confs dir net' hs (e', ?w1))) = sent ?w1"
    by simp
qed

theorem C8_cached_ip_means_no_update_witness:
  "main_step ''9.9.9.9'' confs_ab ''/etc/ddns'' (answers (DoError None) (\<lambda>_. DoError None))
      ''a.example.com''
      (None, disk [(''/etc/ddns/ip.cache.a.example.com'', ''9.9.9.9''),
                   (''/etc/ddns/ip.cache.b.example.com'', ''9.9.9.9'')] True)
     = (None,
        logPrintf (LogCachedAlreadySet ''9.9.9.9'' ''a.example.com'')
          (snd (LoadCachedIP conf_a ''/etc/ddns''
                  (logPrintf (LogProcessing ''a.example.com'')
                     (disk [(''/etc/ddns/ip.cache.a.example.com'', ''9.9.9.9''),
                            (''/etc/ddns/ip.cache.b.example.com'', ''9.9.9.9'')] True)))))
   \<and> sent (snd (main_loop ''9.9.9.9'' confs_ab ''/etc/ddns''
                  (answers (DoError None) (\<lambda>_. DoError None))
                  [''a.example.com'', ''b.example.com'']
                  (None, disk [(''/etc/ddns/ip.cache.a.example.com'', ''9.9.9.9''),
                               (''/etc/ddns/ip.cache.b.example.com'', ''9.9.9.9'')] True))) = []
   \<and> sent (snd (main_loop ''9.9.9.9'' confs_ab ''/etc/ddns''
                  (answers (DoError None) (\<lambda>_. DoError None))
                  [''a.example.com'', ''b.example.com'']
                  (None,
                   snd (main_loop ''9.9.9.9'' confs_ab ''/etc/ddns''
                          (answers (DoError None) (\<lambda>_. DoError None))
                          [''a.example.com'', ''b.example.com'']
                          (None, disk [(''/etc/ddns/ip.cache.a.example.com'', ''9.9.9.9''),
                                       (''/etc/ddns/ip.cache.b.example.com'', ''9.9.9.9'')]
                                   True))))) = []
   \<and> sent (snd (main_loop ''9.9.9.9'' confs_ab ''/etc/ddns''
                  (answers (DoError None) (\<lambda>_. DoOk 200 (Some ''good 9.9.9.9'')))
                  [''a.example.com'']
                  (None,
                   snd (main_loop ''9.9.9.9'' confs_ab ''/etc/ddns''
                          (answers (DoError None) (\<lambda>_. DoOk 200 (Some ''good 9.9.9.9'')))
                          [''a.example.com''] (None, disk [] True)))))
       = [''https://u:p@domains.google.com/nic/update?hostname=a.example.com&myip=9.9.9.9'']"
proof -
  let ?w = "disk [(''/etc/ddns/ip.cache.a.example.com'', ''9.9.9.9''),
                  (''/etc/ddns/ip.cache.b.example.com'', ''9.9.9.9'')] True"
  let ?idle = "answers (DoError None) (\<lambda>_. DoError None)"
  let ?good = "answers (DoError None) (\<lambda>_. DoOk 200 (Some ''good 9.9.9.9''))"
  let ?w1 = "snd (main_loop ''9.9.9.9'' confs_ab ''/etc/ddns'' ?good [''a.example.com'']
                    (None, disk [] True))"
  have a: "fst (LoadCachedIP conf_a ''/etc/ddns'' ?w) = (''9.9.9.9'', None)"
    by (simp add: LoadCachedIP_fst path_conf_a) (simp add: disk_def)
  have b: "fst (LoadCachedIP conf_b ''/etc/ddns'' ?w) = (''9.9.9.9'', None)"
    by (simp add: LoadCachedIP_fst path_conf_b) (simp add: disk_def)
  have ka: "ConfigForHostname confs_ab ''a.example.com'' = Some conf_a"
    and kb: "ConfigForHostname confs_ab ''b.example.com'' = Some conf_b"
    by (simp_all add: ConfigForHostname_def confs_ab_def conf_a_def conf_b_def)
  have p1: "ConfigForHostname confs_ab ''a.example.com'' = Some conf_a
      \<and> fst (LoadCachedIP conf_a ''/etc/ddns'' ?w) = (''9.9.9.9'', None)"
    using a ka by simp
  have p2: "\<forall>h\<in>set [''a.example.com'', ''b.example.com'']. \<forall>conf.
       ConfigForHostname confs_ab h = Some conf \<longrightarrow>
          fst (LoadCachedIP conf ''/etc/ddns'' ?w) = (''9.9.9.9'', None)"
    using a b ka kb by auto
  have s: "sent ?w = []" by (simp add: disk_def)
  have h: "Hostname conf_a = ''a.example.com''" by (simp add: conf_a_def)
  have first: "?w1 =
     \<lparr>files = [''/etc/ddns/ip.cache.a.example.com'' \<mapsto> ''9.9.9.9''],
      read_ok = (\<lambda>_. True), write_ok = (\<lambda>_. True),
      sent = [''https://u:p@domains.google.com/nic/update?hostname=a.example.com&myip=9.9.9.9''],
      logged = [LogProcessing ''a.example.com'',
                LogCacheMissing ''/etc/ddns/ip.cache.a.example.com'',
                LogCaching ''0.0.0.0'' ''/etc/ddns/ip.cache.a.example.com'',
                LogCaching ''9.9.9.9'' ''/etc/ddns/ip.cache.a.example.com'',
                LogUpdateSuccessful]\<rparr>"
    by (simp add: run_defs path_a)
  have a1: "fst (LoadCachedIP conf_a ''/etc/ddns'' ?w1) = (''9.9.9.9'', None)"
    by (simp only: first LoadCachedIP_fst path_conf_a) simp
  have p3: "\<forall>h\<in>set [''a.example.com'']. \<forall>conf.
       ConfigForHostname confs_ab h = Some conf \<longrightarrow>
          fst (LoadCachedIP conf ''/etc/ddns'' ?w1) = (''9.9.9.9'', None)"
    using a1 ka by auto
  have s1: "sent ?w1
     = [''https://u:p@domains.google.com/nic/update?hostname=a.example.com&myip=9.9.9.9'']"
    by (simp only: first) simp
  have idle: "main_step ''9.9.9.9'' confs_ab ''/etc/ddns'' ?idle ''a.example.com'' (None, ?w)
     = (None,
        logPrintf (LogCachedAlreadySet ''9.9.9.9'' ''a.example.com'')
          (snd (LoadCachedIP conf_a ''/etc/ddns''
                  (logPrintf (LogProcessing ''a.example.com'') ?w))))
   \<and> sent (snd (main_loop ''9.9.9.9'' confs_ab ''/etc/ddns'' ?idle
                  [''a.example.com'', ''b.example.com''] (None, ?w))) = []
   \<and> sent (snd (main_loop ''9.9.9.9'' confs_ab ''/etc/ddns'' ?idle
                  [''a.example.com'', ''b.example.com'']
                  (None, snd (main_loop ''9.9.9.9'' confs_ab ''/etc/ddns'' ?idle
                                [''a.example.com'', ''b.example.com''] (None, ?w))))) = []"
    using C8_cached_ip_means_no_update [of confs_ab "''a.example.com''" conf_a "''/etc/ddns''" ?w "''9.9.9.9''"
        ?idle None "[''a.example.com'', ''b.example.com'']" ?idle None] p1 p2
    by (simp only: s h)
  have again: "sent (snd (main_loop ''9.9.9.9'' confs_ab ''/etc/ddns'' ?good [''a.example.com'']
                            (None, ?w1)))
       = [''https://u:p@domains.google.com/nic/update?hostname=a.example.com&myip=9.9.9.9'']"
    using C8_cached_ip_means_no_update [of confs_ab "''a.example.com''" conf_a "''/etc/ddns''" "disk [] True"
        "''9.9.9.9''" ?good None "[''a.example.com'']" ?good None] p3
    by (simp only: s1)
  from idle again show ?thesis by (simp only: simp_thms)
qed

text \<open>
  Claim C4 says that when neither an override nor a static IP is given and the probe
  fails, no update request is sent and the sentinel 0.0.0.0 is never sent as the
  target IP. \<open>GetExternalIP\<close> returns the sentinel together with its error, and
  \<open>main\<close> guards the loop by the IP being non-empty only. At this input (no override,
  no static IP, the probe answered with status 500, the cache of a.example.com holding
  1.2.3.4) the run sends an update request for 0.0.0.0, saves 0.0.0.0 on the
  provider's \<open>good 0.0.0.0\<close>, and ends with status 0.
\<close>

theorem C4_failed_probe_sends_fallbackIP:
  "main [] [''a.example.com''] confs_ab ''/etc/ddns''
     (answers (DoOk 500 (Some [])) (\<lambda>_. DoOk 200 (Some ''good 0.0.0.0'')))
     (disk [(''/etc/ddns/ip.cache.a.example.com'', ''1.2.3.4'')] True)
   = Ret (0,
       \<lparr>files = [''/etc/ddns/ip.cache.a.example.com'' \<mapsto> ''0.0.0.0''],
        read_ok = (\<lambda>_. True), write_ok = (\<lambda>_. True),
        sent = [''https://u:p@domains.google.com/nic/update?hostname=a.example.com&myip=0.0.0.0''],
        logged = [LogProcessing ''a.example.com'',
                  LogLoadedCache ''1.2.3.4'' ''/etc/ddns/ip.cache.a.example.com'',
                  LogCaching ''0.0.0.0'' ''/etc/ddns/ip.cache.a.example.com'',
                  LogUpdateSuccessful,
                  LogUpdateFinished]\<rparr>)"
  by (simp add: run_defs path_a)

text \<open>
  Claim C5 says that the error surfaced at the end of the batch is the last error
  met across all hostnames. The loop assigns \<^verbatim>\<open>err\<close> the result of every load, nil
  included, so an earlier error is lost. At this input (resolved IP 9.9.9.9; the
  update of a.example.com answered \<open>badauth\<close>; b.example.com already cached as
  9.9.9.9) both hostnames are processed in order, the failure of the first is logged,
  and the run ends with status 0 and the line that the update finished.
\<close>

theorem C5_earlier_error_is_lost:
  "main ''9.9.9.9'' [''a.example.com'', ''b.example.com''] confs_ab ''/etc/ddns''
     (answers (DoError None) (\<lambda>_. DoOk 200 (Some ''badauth'')))
     (disk [(''/etc/ddns/ip.cache.a.example.com'', ''1.1.1.1''),
            (''/etc/ddns/ip.cache.b.example.com'', ''9.9.9.9'')] True)
   = Ret (0,
       \<lparr>files = map_of [(''/etc/ddns/ip.cache.a.example.com'', ''1.1.1.1''),
            (''/etc/ddns/ip.cache.b.example.com'', ''9.9.9.9'')],
        read_ok = (\<lambda>_. True), write_ok = (\<lambda>_. True),
        sent = [''https://u:p@domains.google.com/nic/update?hostname=a.example.com&myip=9.9.9.9''],
        logged = [LogProcessing ''a.example.com'',
                  LogLoadedCache ''1.1.1.1'' ''/etc/ddns/ip.cache.a.example.com'',
                  LogFailedUpdate ''9.9.9.9'' ''a.example.com''
                    (ErrBadAuth ''u'' ''p'' ''a.example.com''),
                  LogProcessing ''b.example.com'',
                  LogLoadedCache ''9.9.9.9'' ''/etc/ddns/ip.cache.b.example.com'',
                  LogCachedAlreadySet ''9.9.9.9'' ''b.example.com'',
                  LogUpdateFinished]\<rparr>)"
  by (simp add: run_defs path_a path_b)

end
